theory Spec2Isabelle
  imports Main "HOL-Library.Sublist"
begin

section \<open>Data model\<close>

text \<open>
  The action's single function \<open>run\<close> parses the \<open>secrets\<close> input into entries and
  reconciles each entry against Secret Manager through four client methods.

  Strings are \<open>string\<close>: an Isabelle character stands for the UTF-16 code unit of the same
  number, so the strings of the model are the JavaScript strings whose code units are
  below 256.
\<close>

text \<open>An element of \<open>secretsArray\<close>; the field \<open>value\<close> of the source is \<open>val\<close> here.\<close>

record secret =
  key :: string
  val :: string

text \<open>
  A value thrown by a client method. The source inspects three things of it:
  \<open>error.code\<close> (\<open>None\<close> when it is absent or not a number), \<open>error instanceof Error\<close>
  and \<open>error.message\<close>. \<open>Nullish\<close> is a rejection with \<open>undefined\<close>, on which reading
  \<open>.code\<close> throws a TypeError (so does \<open>null\<close>, with that word in the TypeError's text).
\<close>

datatype thrown = Nullish | Obj (code: "int option") (instanceof_Error: bool) (message: string)

datatype replication = Automatic

datatype 'b call =
    GetSecret string
  | CreateSecret string string replication
  | AddSecretVersion string 'b
  | AccessSecretVersion string

datatype result = Resolved | Rejected thrown

datatype 'b event =
    Call "'b call" result
  | SetFailed string
  | Warning string
  | Info string
  | SetOutput string "string list"

text \<open>
  What \<open>accessSecretVersion\<close> resolves with, as the client's types declare it: an array
  whose first element is the version response, with an optional payload that has optional
  data.
\<close>

datatype 'b payload = Payload (data: "'b option")

datatype 'b version_response = VersionResponse (payload: "'b payload option")

text \<open>
  The environment of \<open>run\<close>: the Secret Manager client, each method a function of the
  request and of the state \<open>'w\<close> of the world outside the action, answering with a
  rejection (\<open>Inl\<close>) or a response and the next state of the world; and Node's
  \<open>Buffer.from(s, 'utf8')\<close> and \<open>buf.toString('utf8')\<close> over the buffer type \<open>'b\<close>.
\<close>

record ('w, 'b) env =
  getSecret :: "string \<Rightarrow> 'w \<Rightarrow> (thrown + unit) \<times> 'w"
  createSecret :: "string \<Rightarrow> string \<Rightarrow> replication \<Rightarrow> 'w \<Rightarrow> (thrown + unit) \<times> 'w"
  addSecretVersion :: "string \<Rightarrow> 'b \<Rightarrow> 'w \<Rightarrow> (thrown + unit) \<times> 'w"
  accessSecretVersion :: "string \<Rightarrow> 'w \<Rightarrow> (thrown + 'b version_response) \<times> 'w"
  Buffer_from_utf8 :: "string \<Rightarrow> 'b"
  toString_utf8 :: "'b \<Rightarrow> string"

text \<open>
  How one pass of the loop body ends: it falls through to the next entry with the world
  and \<open>updatedSecrets\<close> as they are now, it executes \<open>return\<close> after \<open>core.setFailed\<close>,
  or an exception leaves it towards the outer \<open>catch\<close>.
\<close>

datatype 'w flow = Next 'w "string list" | Returned | Threw thrown

section \<open>Parsing the \<open>secrets\<close> input\<close>

text \<open>\<open>String.prototype.split\<close> with a one-character separator: never the empty array.\<close>

fun split_str :: "char \<Rightarrow> string \<Rightarrow> string list" where
  "split_str sep [] = [[]]"
| "split_str sep (c # cs) =
     (if c = sep then [] # split_str sep cs
      else (case split_str sep cs of
              [] \<Rightarrow> [[c]]
            | w # ws \<Rightarrow> (c # w) # ws))"

text \<open>
  The white space and line terminators that \<open>String.prototype.trim\<close> removes, among the
  code units below 256: TAB, LF, VT, FF, CR, SPACE and NBSP.
\<close>

definition is_space :: "char \<Rightarrow> bool" where
  "is_space c = (of_char c \<in> {9::nat, 10, 11, 12, 13, 32, 160})"

definition trim :: "string \<Rightarrow> string" where
  "trim s = rev (dropWhile is_space (rev (dropWhile is_space s)))"

text \<open>
  \<open>const [key, value] = item.split('=')\<close>: the first two pieces of the split; a missing
  second piece is \<open>undefined\<close> and becomes the empty string.
\<close>

definition parse_item :: "string \<Rightarrow> secret" where
  "parse_item item =
     (case split_str CHR ''='' item of
        [] \<Rightarrow> \<lparr>key = [], val = []\<rparr>
      | [k] \<Rightarrow> \<lparr>key = trim k, val = trim []\<rparr>
      | k # v # _ \<Rightarrow> \<lparr>key = trim k, val = trim v\<rparr>)"

definition secretsArray :: "string \<Rightarrow> secret list" where
  "secretsArray secrets =
     map parse_item
       (filter (\<lambda>item. length item > 0)
          (map trim (split_str CHR '','' secrets)))"

text \<open>The validation loop: \<open>return\<close> at the first entry whose key is falsy (empty).\<close>

fun has_empty_key :: "secret list \<Rightarrow> bool" where
  "has_empty_key [] = False"
| "has_empty_key (s # ss) = (if key s = [] then True else has_empty_key ss)"

section \<open>The reconciliation loop\<close>

definition parent :: "string \<Rightarrow> string" where
  "parent projectId = ''projects/'' @ projectId"

definition secretName :: "string \<Rightarrow> string \<Rightarrow> string" where
  "secretName projectId k = ''projects/'' @ projectId @ ''/secrets/'' @ k"

text \<open>The TypeError that reading \<open>.code\<close> of \<open>undefined\<close> throws (the text is V8's).\<close>

definition TypeError_code :: thrown where
  "TypeError_code = Obj None True ''Cannot read properties of undefined (reading 'code')''"

fun is_Error :: "thrown \<Rightarrow> bool" where
  "is_Error Nullish = False"
| "is_Error (Obj c b m) = b"

text \<open>
  The pattern that ends every fatal branch:
  \<open>if (error instanceof Error) core.setFailed(`...: ${error.message}`) else core.setFailed(`...`)\<close>.
\<close>

fun setFailed_for :: "thrown \<Rightarrow> string \<Rightarrow> string \<Rightarrow> 'b event" where
  "setFailed_for Nullish known unknown = SetFailed unknown"
| "setFailed_for (Obj c b m) known unknown = (if b then SetFailed (known @ m) else SetFailed unknown)"

definition prepend :: "'a list \<Rightarrow> 'a list \<times> 'f \<Rightarrow> 'a list \<times> 'f" where
  "prepend pre r = (pre @ fst r, snd r)"

text \<open>Lines 150 to 180: the secret does not exist.\<close>

definition create_path ::
  "('w, 'b) env \<Rightarrow> string \<Rightarrow> secret \<Rightarrow> 'w \<Rightarrow> string list \<Rightarrow> 'b event list \<times> 'w flow" where
  "create_path env projectId secret w updatedSecrets =
     (let create = CreateSecret (parent projectId) (key secret) Automatic;
          buf = Buffer_from_utf8 env (val secret);
          add = AddSecretVersion (secretName projectId (key secret)) buf;
          known = ''Error creating secret '' @ key secret @ '' or adding initial version: '';
          unknown = ''An unknown error occurred while creating secret '' @ key secret
      in case createSecret env (parent projectId) (key secret) Automatic w of
           (Inl error, w1) \<Rightarrow>
             ([Call create (Rejected error), setFailed_for error known unknown], Returned)
         | (Inr _, w1) \<Rightarrow>
             (case addSecretVersion env (secretName projectId (key secret)) buf w1 of
                (Inl error, w2) \<Rightarrow>
                  ([Call create Resolved, Call add (Rejected error),
                    setFailed_for error known unknown], Returned)
              | (Inr _, w2) \<Rightarrow>
                  ([Call create Resolved, Call add Resolved],
                   Next w2 (updatedSecrets @ [key secret]))))"

text \<open>Lines 216 to 247: the \<open>catch\<close> around the access of the latest version and the update.\<close>

definition catch_update ::
  "('w, 'b) env \<Rightarrow> string \<Rightarrow> secret \<Rightarrow> thrown \<Rightarrow> 'w \<Rightarrow> string list \<Rightarrow> 'b event list \<times> 'w flow" where
  "catch_update env projectId secret error w updatedSecrets =
     (case error of
        Nullish \<Rightarrow> ([], Threw TypeError_code)
      | Obj c b m \<Rightarrow>
          if c = Some 5 then
            (let buf = Buffer_from_utf8 env (val secret);
                 add = AddSecretVersion (secretName projectId (key secret)) buf;
                 warn = Warning (''Secret '' @ key secret @
                   '' exists but failed to access latest version (perhaps no enabled versions?). Adding a new version.'')
             in case addSecretVersion env (secretName projectId (key secret)) buf w of
                  (Inr _, w1) \<Rightarrow>
                    ([warn, Call add Resolved], Next w1 (updatedSecrets @ [key secret]))
                | (Inl addVersionError, w1) \<Rightarrow>
                    ([warn, Call add (Rejected addVersionError),
                      setFailed_for addVersionError
                        (''Error adding version to secret '' @ key secret @
                           '' after failing to access latest: '')
                        (''An unknown error occurred while adding version to secret '' @ key secret)],
                     Returned))
          else
            ([setFailed_for error
                (''Error accessing/updating secret '' @ key secret @ '': '')
                (''An unknown error occurred while accessing/updating secret '' @ key secret)],
             Returned))"

text \<open>\<open>versionResponse.payload?.data?.toString('utf8')\<close>; \<open>None\<close> is \<open>undefined\<close>.\<close>

definition currentSecretData :: "('w, 'b) env \<Rightarrow> 'b version_response \<Rightarrow> string option" where
  "currentSecretData env versionResponse =
     (case payload versionResponse of
        None \<Rightarrow> None
      | Some p \<Rightarrow> (case data p of None \<Rightarrow> None | Some d \<Rightarrow> Some (toString_utf8 env d)))"

text \<open>Lines 185 to 248: the secret exists.\<close>

definition update_path ::
  "('w, 'b) env \<Rightarrow> string \<Rightarrow> secret \<Rightarrow> 'w \<Rightarrow> string list \<Rightarrow> 'b event list \<times> 'w flow" where
  "update_path env projectId secret w updatedSecrets =
     (let latest = secretName projectId (key secret) @ ''/versions/latest'';
          access = AccessSecretVersion latest;
          buf = Buffer_from_utf8 env (val secret);
          add = AddSecretVersion (secretName projectId (key secret)) buf
      in case accessSecretVersion env latest w of
           (Inl error, w1) \<Rightarrow>
             prepend [Call access (Rejected error)]
               (catch_update env projectId secret error w1 updatedSecrets)
         | (Inr versionResponse, w1) \<Rightarrow>
             (case currentSecretData env versionResponse of
                None \<Rightarrow>
                  (let warn = Warning (''Could not retrieve current data for secret '' @ key secret @
                                        ''. Adding a new version.'')
                   in case addSecretVersion env (secretName projectId (key secret)) buf w1 of
                        (Inr _, w2) \<Rightarrow>
                          ([Call access Resolved, warn, Call add Resolved],
                           Next w2 (updatedSecrets @ [key secret]))
                      | (Inl error, w2) \<Rightarrow>
                          prepend [Call access Resolved, warn, Call add (Rejected error)]
                            (catch_update env projectId secret error w2 updatedSecrets))
              | Some current \<Rightarrow>
                  if current \<noteq> val secret then
                    (case addSecretVersion env (secretName projectId (key secret)) buf w1 of
                       (Inr _, w2) \<Rightarrow>
                         ([Call access Resolved, Call add Resolved,
                           Info (''Updated secret '' @ key secret @ '' with a new version.'')],
                          Next w2 (updatedSecrets @ [key secret]))
                     | (Inl error, w2) \<Rightarrow>
                         prepend [Call access Resolved, Call add (Rejected error)]
                           (catch_update env projectId secret error w2 updatedSecrets))
                  else
                    ([Call access Resolved,
                      Info (''Secret '' @ key secret @ '' is already up-to-date.'')],
                     Next w1 updatedSecrets)))"

text \<open>Lines 125 to 248: the body of the loop, for one entry.\<close>

definition process_secret ::
  "('w, 'b) env \<Rightarrow> string \<Rightarrow> secret \<Rightarrow> 'w \<Rightarrow> string list \<Rightarrow> 'b event list \<times> 'w flow" where
  "process_secret env projectId secret w updatedSecrets =
     (let get = GetSecret (secretName projectId (key secret))
      in case getSecret env (secretName projectId (key secret)) w of
           (Inr _, w1) \<Rightarrow>
             prepend [Call get Resolved] (update_path env projectId secret w1 updatedSecrets)
         | (Inl error, w1) \<Rightarrow>
             prepend [Call get (Rejected error)]
               (case error of
                  Nullish \<Rightarrow> ([], Threw TypeError_code)
                | Obj c b m \<Rightarrow>
                    if c = Some 5 then create_path env projectId secret w1 updatedSecrets
                    else
                      ([setFailed_for error
                          (''Error checking secret '' @ key secret @ '': '')
                          (''An unknown error occurred while checking secret '' @ key secret)],
                       Returned)))"

text \<open>Line 124: the loop over the entries, left by \<open>return\<close> or by an exception.\<close>

fun for_secrets ::
  "('w, 'b) env \<Rightarrow> string \<Rightarrow> secret list \<Rightarrow> 'w \<Rightarrow> string list \<Rightarrow> 'b event list \<times> 'w flow" where
  "for_secrets env projectId [] w updatedSecrets = ([], Next w updatedSecrets)"
| "for_secrets env projectId (s # ss) w updatedSecrets =
     (case process_secret env projectId s w updatedSecrets of
        (evs, Next w1 updated1) \<Rightarrow> prepend evs (for_secrets env projectId ss w1 updated1)
      | (evs, Returned) \<Rightarrow> (evs, Returned)
      | (evs, Threw error) \<Rightarrow> (evs, Threw error))"

text \<open>
  \<open>run\<close>, from the two values \<open>core.getInput\<close> returned and the state of the world, to
  the events it causes in order: the calls of the client with their results and the
  calls of \<open>core.setFailed\<close>, \<open>core.warning\<close>, \<open>core.info\<close> and \<open>core.setOutput\<close>.
  Constructing the client (line 116) makes no call of the service.
\<close>

definition run :: "('w, 'b) env \<Rightarrow> string \<Rightarrow> string \<Rightarrow> 'w \<Rightarrow> 'b event list" where
  "run env projectId secrets w =
     (if has_empty_key (secretsArray secrets) then
        [SetFailed ''Invalid secrets format: Found an entry with an empty key.'']
      else
        (case for_secrets env projectId (secretsArray secrets) w [] of
           (evs, Next w1 updatedSecrets) \<Rightarrow> evs @ [SetOutput ''updated_secrets'' updatedSecrets]
         | (evs, Returned) \<Rightarrow> evs
         | (evs, Threw error) \<Rightarrow>
             evs @ [if is_Error error then SetFailed (message error)
                    else SetFailed ''An unknown error occurred during action execution.'']))"

section \<open>Observations on a run\<close>

text \<open>\<open>error.code === 5\<close>, the NOT_FOUND of the service; false of a thrown \<open>undefined\<close>.\<close>

fun not_found :: "thrown \<Rightarrow> bool" where
  "not_found Nullish = False"
| "not_found (Obj c b m) = (c = Some 5)"

text \<open>
  An event after which the run goes on: anything but a failure report, the success
  output, and a call rejected with something else than NOT_FOUND.
\<close>

fun quiet :: "'b event \<Rightarrow> bool" where
  "quiet (Call c (Rejected e)) = not_found e"
| "quiet (SetFailed m) = False"
| "quiet (SetOutput n ups) = False"
| "quiet ev = True"

text \<open>The calls that \<open>run\<close> can make for one entry.\<close>

definition calls_for :: "('w, 'b) env \<Rightarrow> string \<Rightarrow> secret \<Rightarrow> 'b call set" where
  "calls_for env projectId s =
     {GetSecret (secretName projectId (key s)),
      CreateSecret (parent projectId) (key s) Automatic,
      AddSecretVersion (secretName projectId (key s)) (Buffer_from_utf8 env (val s)),
      AccessSecretVersion (secretName projectId (key s) @ ''/versions/latest'')}"

text \<open>
  Whether the \<open>catch\<close> that handles a rejection of the call \<open>c\<close> begins by reading
  \<open>error.code\<close>, given the events before the call, latest first. The \<open>catch\<close> of the
  existence check (line 134) and the \<open>catch\<close> around the access and the update (line 217)
  do; the \<open>catch\<close> of the create path (line 172) and the \<open>catch\<close> of the retried
  add-version call (line 229) only test \<open>instanceof Error\<close>. An add-version call is the
  update's first one when the access has just succeeded, or has succeeded just before the
  warning that precedes the call.
\<close>

fun reads_code_rev :: "'b event list \<Rightarrow> 'b call \<Rightarrow> bool" where
  "reads_code_rev rpre (GetSecret n) = True"
| "reads_code_rev rpre (AccessSecretVersion n) = True"
| "reads_code_rev rpre (CreateSecret p k r) = False"
| "reads_code_rev (Call (AccessSecretVersion l) Resolved # rpre) (AddSecretVersion n b) = True"
| "reads_code_rev (Warning m # Call (AccessSecretVersion l) Resolved # rpre) (AddSecretVersion n b) = True"
| "reads_code_rev rpre (AddSecretVersion n b) = False"


fun is_add :: "'b call \<Rightarrow> bool" where
  "is_add (AddSecretVersion n b) = True"
| "is_add c = False"

text \<open>
  A failure message names the key, and the message of the thrown value when that is an
  \<open>Error\<close>.
\<close>

definition names :: "string \<Rightarrow> thrown \<Rightarrow> string \<Rightarrow> bool" where
  "names k e m = (sublist k m \<and> (is_Error e \<longrightarrow> sublist (message e) m))"

text \<open>
  What the events of the loop look like, by the way the loop ends: all quiet when it
  goes on; a rejected call and its failure report, which names the key, last when it
  returns; a call rejected with \<open>undefined\<close>, in a \<open>try\<close> whose \<open>catch\<close> reads
  \<open>error.code\<close>, last when the TypeError leaves it.
\<close>

definition shape ::
  "('w, 'b) env \<Rightarrow> string \<Rightarrow> secret set \<Rightarrow> 'b event list \<times> 'w flow \<Rightarrow> bool" where
  "shape env projectId S r =
     (case snd r of
        Next w upd \<Rightarrow> list_all quiet (fst r)
      | Returned \<Rightarrow>
          (\<exists>c e ev rpre s. rev (fst r) = ev # Call c (Rejected e) # rpre \<and>
             (\<exists>m. ev = SetFailed m \<and> names (key s) e m) \<and>
             (e = Nullish \<longrightarrow> \<not> reads_code_rev rpre c) \<and>
             (is_add c \<longrightarrow> 2 \<le> length rpre) \<and>
             list_all quiet rpre \<and> s \<in> S \<and> c \<in> calls_for env projectId s)
      | Threw t \<Rightarrow>
          (\<exists>c rpre s. rev (fst r) = Call c (Rejected Nullish) # rpre \<and>
             reads_code_rev rpre c \<and> (is_add c \<longrightarrow> 2 \<le> length rpre) \<and>
             list_all quiet rpre \<and> s \<in> S \<and> c \<in> calls_for env projectId s \<and>
             t = TypeError_code))"

text \<open>The result of a call, from what the client answered.\<close>

definition result_of :: "thrown + 'a \<Rightarrow> result" where
  "result_of r = (case r of Inl e \<Rightarrow> Rejected e | Inr x \<Rightarrow> Resolved)"

text \<open>
  The secret names that received a new version (the add-version calls that succeeded)
  and the keys whose secret was created (the create calls that succeeded), in order.
\<close>

definition versions_added :: "'b event list \<Rightarrow> string list" where
  "versions_added evs =
     concat (map (\<lambda>ev. case ev of Call (AddSecretVersion n b) Resolved \<Rightarrow> [n] | _ \<Rightarrow> []) evs)"

definition secrets_created :: "'b event list \<Rightarrow> string list" where
  "secrets_created evs =
     concat (map (\<lambda>ev. case ev of Call (CreateSecret p k r) Resolved \<Rightarrow> [k] | _ \<Rightarrow> []) evs)"

section \<open>The inputs\<close>

text \<open>
  \<open>core.getInput(name, { required: true })\<close> of the Actions toolkit, which is
  \<open>@actions/core\<close> and no code of this repository, on the raw value of the input (the
  empty string when the input is not set): it throws
  \<open>Error('Input required and not supplied: ' + name)\<close> when the raw value is empty, and
  returns the trimmed value otherwise.
\<close>

definition getInput_required :: "string \<Rightarrow> string \<Rightarrow> thrown + string" where
  "getInput_required name raw =
     (if raw = [] then Inl (Obj None True (''Input required and not supplied: '' @ name))
      else Inr (trim raw))"

text \<open>
  How the promise of \<open>run()\<close> ends: rejected with what was thrown outside every \<open>try\<close>,
  or resolved after the events.
\<close>

datatype 'b completion = Throws thrown | Completes "'b event list"

text \<open>
  The whole of \<open>run\<close>, lines 93 to 258, from the raw inputs: the two \<open>getInput\<close> of
  lines 94 and 95 stand before the \<open>try\<close>, so what they throw rejects the promise.
\<close>

definition run_action :: "('w, 'b) env \<Rightarrow> string \<Rightarrow> string \<Rightarrow> 'w \<Rightarrow> 'b completion" where
  "run_action env raw_project_id raw_secrets w =
     (case getInput_required ''project_id'' raw_project_id of
        Inl error \<Rightarrow> Throws error
      | Inr projectId \<Rightarrow>
          (case getInput_required ''secrets'' raw_secrets of
             Inl error \<Rightarrow> Throws error
           | Inr secrets \<Rightarrow> Completes (run env projectId secrets w)))"

section \<open>The parser as the specification words it\<close>

text \<open>
  The specification's parser, for comparison with \<open>secretsArray\<close>: each segment is
  split at its first \<open>=\<close> into the key and the optional value, which is all that
  follows that \<open>=\<close>.
\<close>

definition split_first :: "char \<Rightarrow> string \<Rightarrow> string \<times> string option" where
  "split_first sep s =
     (if sep \<in> set s
      then (takeWhile (\<lambda>c. c \<noteq> sep) s, Some (tl (dropWhile (\<lambda>c. c \<noteq> sep) s)))
      else (s, None))"

definition spec_parse :: "string \<Rightarrow> secret list" where
  "spec_parse secrets =
     map (\<lambda>segment. case split_first CHR ''='' segment of
            (k, v) \<Rightarrow> \<lparr>key = trim k, val = trim (case v of None \<Rightarrow> [] | Some x \<Rightarrow> x)\<rparr>)
       (filter (\<lambda>segment. segment \<noteq> [])
          (map trim (split_str CHR '','' secrets)))"

section \<open>A client with fixed answers\<close>

text \<open>
  The client of the repository's tests (\<open>mockResolvedValue\<close>, \<open>mockRejectedValue\<close>): every
  method answers the same whatever the request, except that the answer of
  \<open>addSecretVersion\<close> may depend on how many times it was called before, which is the
  state of this world: \<open>always r\<close> answers \<open>r\<close> every time, \<open>once_then r r'\<close>
  answers \<open>r\<close> to the first call and \<open>r'\<close> afterwards (\<open>mockRejectedValueOnce\<close>).
  Buffers are the strings they encode.
\<close>

definition always :: "'a \<Rightarrow> nat \<Rightarrow> 'a" where
  [simp]: "always r n = r"

definition once_then :: "'a \<Rightarrow> 'a \<Rightarrow> nat \<Rightarrow> 'a" where
  [simp]: "once_then first later n = (if n = 0 then first else later)"

definition mock ::
  "(thrown + unit) \<Rightarrow> (thrown + unit) \<Rightarrow> (nat \<Rightarrow> thrown + unit) \<Rightarrow>
   (thrown + string version_response) \<Rightarrow> (nat, string) env" where
  "mock get create add access =
     \<lparr>getSecret = (\<lambda>name n. (get, n)),
      createSecret = (\<lambda>p k r n. (create, n)),
      addSecretVersion = (\<lambda>name buf n. (add n, Suc n)),
      accessSecretVersion = (\<lambda>name n. (access, n)),
      Buffer_from_utf8 = (\<lambda>s. s),
      toString_utf8 = (\<lambda>b. b)\<rparr>"

section \<open>Lemmas on the loop\<close>

lemmas path_defs = process_secret_def update_path_def catch_update_def create_path_def prepend_def

lemmas eval_defs =
  run_def secretsArray_def parse_item_def trim_def is_space_def path_defs mock_def
  secretName_def parent_def currentSecretData_def Let_def

lemma sublist_skip_append: "sublist xs zs \<Longrightarrow> sublist xs (ys @ zs)"
  by (metis sublist_order.order_trans sublist_append_leftI)

lemma setFailed_for_names:
  "\<exists>m. setFailed_for e (a @ k @ b) (u @ k) = SetFailed m \<and> names k e m"
  by (cases e) (auto simp: names_def intro: sublist_skip_append)

lemmas failure_names =
  setFailed_for_names [of _ "''Error checking secret ''" _ "'': ''"
    "''An unknown error occurred while checking secret ''", simplified]
  setFailed_for_names [of _ "''Error creating secret ''" _ "'' or adding initial version: ''"
    "''An unknown error occurred while creating secret ''", simplified]
  setFailed_for_names [of _ "''Error adding version to secret ''" _ "'' after failing to access latest: ''"
    "''An unknown error occurred while adding version to secret ''", simplified]
  setFailed_for_names [of _ "''Error accessing/updating secret ''" _ "'': ''"
    "''An unknown error occurred while accessing/updating secret ''", simplified]

lemma reads_code_rev_append:
  "2 \<le> length rpre \<or> \<not> is_add c \<Longrightarrow> reads_code_rev (rpre @ xs) c = reads_code_rev rpre c"
  by (induction rpre c rule: reads_code_rev.induct) auto

lemma shape_prepend:
  "list_all quiet pre \<Longrightarrow> shape env projectId S r \<Longrightarrow> shape env projectId S (prepend pre r)"
  by (auto simp: shape_def prepend_def reads_code_rev_append split: flow.splits)

lemma shape_mono:
  "shape env projectId S r \<Longrightarrow> S \<subseteq> T \<Longrightarrow> shape env projectId T r"
  unfolding shape_def by (cases "snd r") (auto, blast+)

lemma process_secret_shape:
  "shape env projectId {s} (process_secret env projectId s w upd)"
  by (auto simp: Let_def path_defs shape_def calls_for_def failure_names
      simp del: setFailed_for.simps
      split: prod.splits sum.splits thrown.splits option.splits)

lemma for_secrets_shape:
  "shape env projectId (set xs) (for_secrets env projectId xs w upd)"
proof (induction xs arbitrary: w upd)
  case Nil
  show ?case by (simp add: shape_def)
next
  case (Cons s ss)
  have step: "shape env projectId (set (s # ss)) (process_secret env projectId s w upd)"
    by (rule shape_mono [OF process_secret_shape]) simp
  show ?case
  proof (cases "process_secret env projectId s w upd")
    case (Pair evs fl)
    show ?thesis
    proof (cases fl)
      case (Next w1 upd1)
      have "list_all quiet evs"
        using step Pair Next by (simp add: shape_def)
      moreover have "shape env projectId (set (s # ss)) (for_secrets env projectId ss w1 upd1)"
        by (rule shape_mono [OF Cons.IH]) auto
      ultimately show ?thesis
        using Pair Next by (simp add: shape_prepend)
    next
      case Returned
      with step Pair show ?thesis by simp
    next
      case (Threw t)
      with step Pair show ?thesis by simp
    qed
  qed
qed


lemma quiet_no_output: "list_all quiet xs \<Longrightarrow> SetOutput n ups \<notin> set xs"
  by (induction xs) auto

lemma versions_added_append [simp]:
  "versions_added (xs @ ys) = versions_added xs @ versions_added ys"
  by (simp add: versions_added_def)

lemma secrets_created_append [simp]:
  "secrets_created (xs @ ys) = secrets_created xs @ secrets_created ys"
  by (simp add: secrets_created_def)

lemma process_secret_writes:
  assumes "process_secret env projectId s w upd = (evs, Next w1 upd1)"
  shows "(upd1 = upd \<and> versions_added evs = [] \<and> secrets_created evs = [])
       \<or> (upd1 = upd @ [key s] \<and> versions_added evs = [secretName projectId (key s)]
            \<and> set (secrets_created evs) \<subseteq> {key s})"
  using assms
  by (auto simp: Let_def path_defs versions_added_def secrets_created_def
      split: prod.splits sum.splits thrown.splits option.splits if_splits)

lemma for_secrets_writes:
  assumes "for_secrets env projectId xs w upd = (evs, Next w1 upd1)"
  shows "\<exists>ks. upd1 = upd @ ks \<and> versions_added evs = map (secretName projectId) ks
           \<and> set (secrets_created evs) \<subseteq> set ks \<and> subseq ks (map key xs)"
  using assms
proof (induction xs arbitrary: w upd evs)
  case Nil
  then show ?case by (simp add: versions_added_def secrets_created_def)
next
  case (Cons s ss)
  obtain evs0 fl where step: "process_secret env projectId s w upd = (evs0, fl)"
    by (cases "process_secret env projectId s w upd")
  with Cons.prems obtain w0 upd0 where fl: "fl = Next w0 upd0"
    by (cases fl) auto
  obtain evs' fl' where rest: "for_secrets env projectId ss w0 upd0 = (evs', fl')"
    by (cases "for_secrets env projectId ss w0 upd0")
  with Cons.prems step fl have evs: "evs = evs0 @ evs'" and fl': "fl' = Next w1 upd1"
    by (simp_all add: prepend_def)
  from Cons.IH [OF rest [unfolded fl']] obtain ks where
    ks: "upd1 = upd0 @ ks" "versions_added evs' = map (secretName projectId) ks"
        "set (secrets_created evs') \<subseteq> set ks" "subseq ks (map key ss)"
    by blast
  from process_secret_writes [OF step [unfolded fl]] show ?case
  proof
    assume a: "upd0 = upd \<and> versions_added evs0 = [] \<and> secrets_created evs0 = []"
    show ?thesis
      by (rule exI [of _ ks]) (use a ks evs in \<open>auto intro: subseq_Cons'\<close>)
  next
    assume a: "upd0 = upd @ [key s] \<and> versions_added evs0 = [secretName projectId (key s)]
                \<and> set (secrets_created evs0) \<subseteq> {key s}"
    show ?thesis
      by (rule exI [of _ "key s # ks"]) (use a ks evs in auto)
  qed
qed

lemma secretName_inject [simp]:
  "secretName projectId k = secretName projectId k' \<longleftrightarrow> k = k'"
  by (simp add: secretName_def)

lemma distinct_count_list: "distinct xs \<Longrightarrow> count_list xs x \<le> 1"
  by (induction xs) auto

lemma split_str_no_sep: "sep \<notin> set s \<Longrightarrow> split_str sep s = [s]"
  by (induction s) auto

lemma split_str_one_sep:
  "count_list s sep = 1 \<Longrightarrow>
   split_str sep s = [takeWhile (\<lambda>c. c \<noteq> sep) s, tl (dropWhile (\<lambda>c. c \<noteq> sep) s)]"
proof (induction s)
  case Nil
  then show ?case by simp
next
  case (Cons c cs)
  show ?case
  proof (cases "c = sep")
    case True
    with Cons.prems have "sep \<notin> set cs"
      by (simp add: count_list_0_iff)
    with True show ?thesis by (simp add: split_str_no_sep)
  next
    case False
    with Cons show ?thesis by simp
  qed
qed

lemma count_list_dropWhile: "count_list (dropWhile P xs) c \<le> count_list xs c"
  by (induction xs) auto

lemma count_list_trim: "count_list (trim s) c \<le> count_list s c"
proof -
  have "count_list (trim s) c = count_list (dropWhile is_space (rev (dropWhile is_space s))) c"
    by (simp add: trim_def)
  also have "\<dots> \<le> count_list (rev (dropWhile is_space s)) c"
    by (rule count_list_dropWhile)
  also have "\<dots> = count_list (dropWhile is_space s) c"
    by simp
  also have "\<dots> \<le> count_list s c"
    by (rule count_list_dropWhile)
  finally show ?thesis .
qed

lemma parse_item_at_most_one_eq:
  assumes "count_list item CHR ''='' \<le> 1"
  shows "parse_item item =
           (case split_first CHR ''='' item of
              (k, v) \<Rightarrow> \<lparr>key = trim k, val = trim (case v of None \<Rightarrow> [] | Some x \<Rightarrow> x)\<rparr>)"
proof (cases "CHR ''='' \<in> set item")
  case False
  then show ?thesis
    by (simp add: parse_item_def split_first_def split_str_no_sep)
next
  case True
  then have "count_list item CHR ''='' \<noteq> 0"
    by (simp add: count_list_0_iff)
  with assms have "count_list item CHR ''='' = 1" by simp
  with True show ?thesis
    by (simp add: parse_item_def split_first_def split_str_one_sep)
qed

lemma secretsArray_spec_parse:
  assumes "\<forall>segment \<in> set (split_str CHR '','' secrets). count_list segment CHR ''='' \<le> 1"
  shows "secretsArray secrets = spec_parse secrets"
proof -
  have "parse_item (trim segment) =
          (case split_first CHR ''='' (trim segment) of
             (k, v) \<Rightarrow> \<lparr>key = trim k, val = trim (case v of None \<Rightarrow> [] | Some x \<Rightarrow> x)\<rparr>)"
    if "segment \<in> set (split_str CHR '','' secrets)" for segment
    using that assms count_list_trim [of segment "CHR ''=''"]
    by (intro parse_item_at_most_one_eq) force
  then show ?thesis
    by (auto simp: secretsArray_def spec_parse_def)
qed

lemma trim_Nil_iff: "trim s = [] \<longleftrightarrow> (\<forall>c \<in> set s. is_space c)"
proof -
  have a: "dropWhile is_space s = [] \<longleftrightarrow> (\<forall>c \<in> set s. is_space c)"
    by (rule dropWhile_eq_Nil_conv)
  have b: "trim s = [] \<longleftrightarrow> (\<forall>c \<in> set (dropWhile is_space s). is_space c)"
    unfolding trim_def rev_is_Nil_conv dropWhile_eq_Nil_conv set_rev ..
  have c: "(\<forall>c \<in> set (dropWhile is_space s). is_space c) \<longleftrightarrow> dropWhile is_space s = []"
  proof (cases "dropWhile is_space s")
    case Nil
    show ?thesis unfolding Nil by simp
  next
    case (Cons x xs)
    then have "\<not> is_space (hd (dropWhile is_space s))"
      by (metis hd_dropWhile list.distinct(1))
    with Cons show ?thesis by auto
  qed
  from a b c show ?thesis by blast
qed

lemma set_trim: "set (trim s) \<subseteq> set s"
proof
  fix x
  assume "x \<in> set (trim s)"
  then have "x \<in> set (dropWhile is_space (rev (dropWhile is_space s)))"
    by (simp add: trim_def)
  then have "x \<in> set (rev (dropWhile is_space s))"
    by (rule set_dropWhileD)
  then have "x \<in> set (dropWhile is_space s)"
    by simp
  then show "x \<in> set s"
    by (rule set_dropWhileD)
qed

lemma all_segments_iff:
  "(\<forall>segment \<in> set (split_str sep s). \<forall>c \<in> set segment. P c)
     \<longleftrightarrow> (\<forall>c \<in> set s. c = sep \<or> P c)"
proof (induction s)
  case Nil
  show ?case by simp
next
  case (Cons a s)
  show ?case
  proof (cases "a = sep")
    case True
    with Cons show ?thesis by simp
  next
    case False
    show ?thesis
    proof (cases "split_str sep s")
      case Nil
      with Cons False show ?thesis by simp
    next
      case (Cons w ws)
      with Cons.IH False show ?thesis by auto
    qed
  qed
qed

lemma no_segment_iff:
  "filter (\<lambda>item. length item > 0) (map trim (split_str sep s)) = []
     \<longleftrightarrow> (\<forall>c \<in> set s. c = sep \<or> is_space c)"
proof -
  have "filter (\<lambda>item. length item > 0) (map trim (split_str sep s)) = []
          \<longleftrightarrow> (\<forall>segment \<in> set (split_str sep s). \<forall>c \<in> set segment. is_space c)"
    by (simp add: filter_empty_conv trim_Nil_iff)
  then show ?thesis
    by (simp only: all_segments_iff)
qed

lemma run_no_segments:
  assumes "filter (\<lambda>item. length item > 0) (map trim (split_str CHR '','' secrets)) = []"
  shows "run env projectId secrets w = [SetOutput ''updated_secrets'' []]"
  using assms by (simp add: run_def secretsArray_def)

section \<open>The claims\<close>

subsection \<open>An existing secret whose latest value can be read\<close>

text \<open>
  C1, as amended. The secret exists and the payload of its latest version decodes to a
  string. If that string equals the desired value, the entry causes the existence check,
  the access and an informational message and nothing else: no create, no add-version,
  and \<open>updatedSecrets\<close> is passed on unchanged to the remaining entries. If it differs
  and the add-version call succeeds, that call is the entry's only write, it carries
  \<open>Buffer.from(value, 'utf8')\<close>, and the key is appended to \<open>updatedSecrets\<close>.
\<close>

theorem existing_secret_compared:
  assumes "getSecret env (secretName projectId (key secret)) w = (Inr (), w1)"
    and "accessSecretVersion env (secretName projectId (key secret) @ ''/versions/latest'') w1
           = (Inr versionResponse, w2)"
    and "currentSecretData env versionResponse = Some current"
  shows "(current = val secret \<longrightarrow>
            for_secrets env projectId (secret # rest) w updatedSecrets =
              prepend
                [Call (GetSecret (secretName projectId (key secret))) Resolved,
                 Call (AccessSecretVersion (secretName projectId (key secret) @ ''/versions/latest'')) Resolved,
                 Info (''Secret '' @ key secret @ '' is already up-to-date.'')]
                (for_secrets env projectId rest w2 updatedSecrets))
       \<and> (current \<noteq> val secret \<longrightarrow>
            (\<forall>w3. addSecretVersion env (secretName projectId (key secret))
                      (Buffer_from_utf8 env (val secret)) w2 = (Inr (), w3) \<longrightarrow>
              for_secrets env projectId (secret # rest) w updatedSecrets =
                prepend
                  [Call (GetSecret (secretName projectId (key secret))) Resolved,
                   Call (AccessSecretVersion (secretName projectId (key secret) @ ''/versions/latest'')) Resolved,
                   Call (AddSecretVersion (secretName projectId (key secret))
                           (Buffer_from_utf8 env (val secret))) Resolved,
                   Info (''Updated secret '' @ key secret @ '' with a new version.'')]
                  (for_secrets env projectId rest w3 (updatedSecrets @ [key secret]))))"
  using assms by (simp add: path_defs)

text \<open>
  The two branches on the client of the tests: the stored value is \<open>same_value\<close>, and
  the desired value is first the same, then another.
\<close>

theorem existing_secret_compared_witness:
  "getSecret (mock (Inr ()) (Inr ()) (always (Inr ())) (Inr (VersionResponse (Some (Payload (Some ''same_value''))))))
     (secretName ''test-project-123'' ''EXISTING_SECRET'') 0 = (Inr (), 0)
   \<and> for_secrets (mock (Inr ()) (Inr ()) (always (Inr ())) (Inr (VersionResponse (Some (Payload (Some ''same_value''))))))
       ''test-project-123'' [\<lparr>key = ''EXISTING_SECRET'', val = ''same_value''\<rparr>] 0 []
     = ([Call (GetSecret ''projects/test-project-123/secrets/EXISTING_SECRET'') Resolved,
         Call (AccessSecretVersion ''projects/test-project-123/secrets/EXISTING_SECRET/versions/latest'') Resolved,
         Info ''Secret EXISTING_SECRET is already up-to-date.''],
        Next 0 [])
   \<and> for_secrets (mock (Inr ()) (Inr ()) (always (Inr ())) (Inr (VersionResponse (Some (Payload (Some ''same_value''))))))
       ''test-project-123'' [\<lparr>key = ''EXISTING_SECRET'', val = ''new_value''\<rparr>] 0 []
     = ([Call (GetSecret ''projects/test-project-123/secrets/EXISTING_SECRET'') Resolved,
         Call (AccessSecretVersion ''projects/test-project-123/secrets/EXISTING_SECRET/versions/latest'') Resolved,
         Call (AddSecretVersion ''projects/test-project-123/secrets/EXISTING_SECRET'' ''new_value'') Resolved,
         Info ''Updated secret EXISTING_SECRET with a new version.''],
        Next 1 [''EXISTING_SECRET''])"
  (is "?g \<and> ?same \<and> ?differs")
proof -
  let ?env = "mock (Inr ()) (Inr ()) (always (Inr ())) (Inr (VersionResponse (Some (Payload (Some ''same_value'')))))"
  have g: "getSecret ?env (secretName ''test-project-123'' (key \<lparr>key = ''EXISTING_SECRET'', val = v\<rparr>)) 0 = (Inr (), 0)" for v
    by (simp add: mock_def)
  have a: "accessSecretVersion ?env
             (secretName ''test-project-123'' (key \<lparr>key = ''EXISTING_SECRET'', val = v\<rparr>) @ ''/versions/latest'') 0
           = (Inr (VersionResponse (Some (Payload (Some ''same_value'')))), 0)" for v
    by (simp add: mock_def)
  have c: "currentSecretData ?env (VersionResponse (Some (Payload (Some ''same_value'')))) = Some ''same_value''"
    by (simp add: currentSecretData_def mock_def)
  have "?same"
    using existing_secret_compared [OF g a c, of "''same_value''" "[]" "[]"]
    by (simp add: prepend_def secretName_def)
  moreover have "?differs"
    using existing_secret_compared [OF g a c, of "''new_value''" "[]" "[]"]
    by (simp add: prepend_def secretName_def mock_def)
  moreover have "?g" by (simp add: mock_def)
  ultimately show ?thesis by blast
qed

text \<open>
  C1 as stated fails: the value differs and the add-version call is rejected with a
  permission error; the run fails and the key is recorded nowhere.
\<close>

theorem differing_value_add_rejected_counterexample:
  "currentSecretData
     (mock (Inr ()) (Inr ()) (always (Inl (Obj (Some 7) True ''denied'')))
        (Inr (VersionResponse (Some (Payload (Some ''old_secret_value''))))))
     (VersionResponse (Some (Payload (Some ''old_secret_value'')))) = Some ''old_secret_value''
   \<and> ''old_secret_value'' \<noteq> ''new_secret_value''
   \<and> for_secrets
       (mock (Inr ()) (Inr ()) (always (Inl (Obj (Some 7) True ''denied'')))
          (Inr (VersionResponse (Some (Payload (Some ''old_secret_value''))))))
       ''test-project-123'' [\<lparr>key = ''EXISTING_SECRET'', val = ''new_secret_value''\<rparr>] 0 []
     = ([Call (GetSecret ''projects/test-project-123/secrets/EXISTING_SECRET'') Resolved,
         Call (AccessSecretVersion
                 ''projects/test-project-123/secrets/EXISTING_SECRET/versions/latest'') Resolved,
         Call (AddSecretVersion ''projects/test-project-123/secrets/EXISTING_SECRET''
                 ''new_secret_value'') (Rejected (Obj (Some 7) True ''denied'')),
         SetFailed ''Error accessing/updating secret EXISTING_SECRET: denied''],
        Returned)
   \<and> run
       (mock (Inr ()) (Inr ()) (always (Inl (Obj (Some 7) True ''denied'')))
          (Inr (VersionResponse (Some (Payload (Some ''old_secret_value''))))))
       ''test-project-123'' ''EXISTING_SECRET=new_secret_value'' 0
     = [Call (GetSecret ''projects/test-project-123/secrets/EXISTING_SECRET'') Resolved,
        Call (AccessSecretVersion
                ''projects/test-project-123/secrets/EXISTING_SECRET/versions/latest'') Resolved,
        Call (AddSecretVersion ''projects/test-project-123/secrets/EXISTING_SECRET''
                ''new_secret_value'') (Rejected (Obj (Some 7) True ''denied'')),
        SetFailed ''Error accessing/updating secret EXISTING_SECRET: denied'']"
  by (simp add: eval_defs)

subsection \<open>A secret that does not exist\<close>

text \<open>
  C2, as amended. The existence check is rejected with code 5. If the create call and
  the add-version call succeed, the entry causes exactly the existence check, one create
  call for the key under \<open>projects/<project>\<close> with automatic replication, and then one
  add-version call with \<open>Buffer.from(value, 'utf8')\<close>; the key is appended to
  \<open>updatedSecrets\<close> and the loop goes on with the remaining entries.
\<close>

theorem absent_secret_created:
  assumes "getSecret env (secretName projectId (key secret)) w = (Inl error, w1)"
    and "not_found error"
    and "createSecret env (parent projectId) (key secret) Automatic w1 = (Inr (), w2)"
    and "addSecretVersion env (secretName projectId (key secret))
           (Buffer_from_utf8 env (val secret)) w2 = (Inr (), w3)"
  shows "for_secrets env projectId (secret # rest) w updatedSecrets =
           prepend
             [Call (GetSecret (secretName projectId (key secret))) (Rejected error),
              Call (CreateSecret (parent projectId) (key secret) Automatic) Resolved,
              Call (AddSecretVersion (secretName projectId (key secret))
                      (Buffer_from_utf8 env (val secret))) Resolved]
             (for_secrets env projectId rest w3 (updatedSecrets @ [key secret]))"
  using assms by (cases error) (simp_all add: path_defs)

theorem absent_secret_created_witness:
  "getSecret (mock (Inl (Obj (Some 5) False ''Secret not found'')) (Inr ()) (always (Inr ()))
               (Inl (Obj (Some 5) False ''Version not found'')))
     (secretName ''test-project-123'' ''NEW_SECRET'') 0
     = (Inl (Obj (Some 5) False ''Secret not found''), 0)
   \<and> not_found (Obj (Some 5) False ''Secret not found'')
   \<and> for_secrets
       (mock (Inl (Obj (Some 5) False ''Secret not found'')) (Inr ()) (always (Inr ()))
          (Inl (Obj (Some 5) False ''Version not found'')))
       ''test-project-123'' [\<lparr>key = ''NEW_SECRET'', val = ''new_value''\<rparr>] 0 []
     = ([Call (GetSecret ''projects/test-project-123/secrets/NEW_SECRET'')
           (Rejected (Obj (Some 5) False ''Secret not found'')),
         Call (CreateSecret ''projects/test-project-123'' ''NEW_SECRET'' Automatic) Resolved,
         Call (AddSecretVersion ''projects/test-project-123/secrets/NEW_SECRET'' ''new_value'')
           Resolved],
        Next 1 [''NEW_SECRET''])"
  (is "?g \<and> ?n \<and> ?r")
proof -
  let ?env = "mock (Inl (Obj (Some 5) False ''Secret not found'')) (Inr ()) (always (Inr ()))
                (Inl (Obj (Some 5) False ''Version not found''))"
  let ?s = "\<lparr>key = ''NEW_SECRET'', val = ''new_value''\<rparr>"
  have g: "getSecret ?env (secretName ''test-project-123'' (key ?s)) 0
             = (Inl (Obj (Some 5) False ''Secret not found''), 0)"
    by (simp add: mock_def)
  have n: "not_found (Obj (Some 5) False ''Secret not found'')"
    by simp
  have c: "createSecret ?env (parent ''test-project-123'') (key ?s) Automatic 0 = (Inr (), 0)"
    by (simp add: mock_def)
  have a: "addSecretVersion ?env (secretName ''test-project-123'' (key ?s))
             (Buffer_from_utf8 ?env (val ?s)) 0 = (Inr (), 1)"
    by (simp add: mock_def)
  have "?r"
    using absent_secret_created [OF g n c a, of "[]" "[]"]
    by (simp add: prepend_def secretName_def parent_def mock_def)
  moreover have "?g" using g by simp
  ultimately show ?thesis using n by blast
qed

text \<open>
  C2 as stated fails, on the input of the repository's test of a failing creation: the
  existence check is rejected with code 5 and the create call is rejected; no
  add-version call follows and the key is recorded nowhere.
\<close>

theorem create_rejected_counterexample:
  "for_secrets
     (mock (Inl (Obj (Some 5) False [])) (Inl (Obj None True ''API Error during creation''))
        (always (Inr ())) (Inl (Obj (Some 5) False ''Version not found'')))
     ''test-project-123'' [\<lparr>key = ''FAIL_CREATE'', val = ''fail_create_value''\<rparr>] 0 []
   = ([Call (GetSecret ''projects/test-project-123/secrets/FAIL_CREATE'')
         (Rejected (Obj (Some 5) False [])),
       Call (CreateSecret ''projects/test-project-123'' ''FAIL_CREATE'' Automatic)
         (Rejected (Obj None True ''API Error during creation'')),
       SetFailed
         ''Error creating secret FAIL_CREATE or adding initial version: API Error during creation''],
      Returned)
   \<and> run
       (mock (Inl (Obj (Some 5) False [])) (Inl (Obj None True ''API Error during creation''))
          (always (Inr ())) (Inl (Obj (Some 5) False ''Version not found'')))
       ''test-project-123'' ''FAIL_CREATE=fail_create_value'' 0
     = [Call (GetSecret ''projects/test-project-123/secrets/FAIL_CREATE'')
          (Rejected (Obj (Some 5) False [])),
        Call (CreateSecret ''projects/test-project-123'' ''FAIL_CREATE'' Automatic)
          (Rejected (Obj None True ''API Error during creation'')),
        SetFailed
          ''Error creating secret FAIL_CREATE or adding initial version: API Error during creation'']"
  by (simp add: eval_defs)

subsection \<open>Parsing and validation\<close>

text \<open>
  C3. The source splits a segment at every \<open>=\<close> and keeps the first two pieces, so a
  value that contains \<open>=\<close> is cut at it: for the input \<open>KEY=dmFsdWU=\<close> the source
  yields the value \<open>dmFsdWU\<close>, where the split at the first \<open>=\<close> that the claim
  describes yields \<open>dmFsdWU=\<close>. (On inputs whose segments hold at most one \<open>=\<close>
  the two parsers agree, by \<open>secretsArray_spec_parse\<close>.)
\<close>

theorem value_cut_at_second_equals:
  "secretsArray ''KEY=dmFsdWU='' = [\<lparr>key = ''KEY'', val = ''dmFsdWU''\<rparr>]
   \<and> spec_parse ''KEY=dmFsdWU='' = [\<lparr>key = ''KEY'', val = ''dmFsdWU=''\<rparr>]"
  by (simp add: secretsArray_def spec_parse_def parse_item_def split_first_def trim_def is_space_def)

text \<open>
  C4. If some parsed entry, at any position, has an empty key, the run consists of the
  one validation failure: no call of the client and no output.
\<close>

theorem empty_key_fails_validation:
  assumes "\<exists>s \<in> set (secretsArray secrets). key s = []"
  shows "run env projectId secrets w =
           [SetFailed ''Invalid secrets format: Found an entry with an empty key.'']"
proof -
  have "has_empty_key xs = (\<exists>s \<in> set xs. key s = [])" for xs
    by (induction xs) auto
  with assms show ?thesis by (simp add: run_def)
qed

theorem empty_key_fails_validation_witness:
  "secretsArray ''validKey=val1, =emptyKeyVal''
     = [\<lparr>key = ''validKey'', val = ''val1''\<rparr>, \<lparr>key = [], val = ''emptyKeyVal''\<rparr>]
   \<and> run (mock (Inr ()) (Inr ()) (always (Inr ())) (Inl Nullish))
       ''test-project-123'' ''validKey=val1, =emptyKeyVal'' 0
     = [SetFailed ''Invalid secrets format: Found an entry with an empty key.'']"
proof -
  have sa: "secretsArray ''validKey=val1, =emptyKeyVal''
              = [\<lparr>key = ''validKey'', val = ''val1''\<rparr>, \<lparr>key = [], val = ''emptyKeyVal''\<rparr>]"
    by (simp add: secretsArray_def parse_item_def trim_def is_space_def)
  then have h: "\<exists>s \<in> set (secretsArray ''validKey=val1, =emptyKeyVal''). key s = []"
    by simp
  show ?thesis
    using sa empty_key_fails_validation [OF h] by simp
qed

text \<open>
  C9, as amended. If the raw \<open>secrets\<close> input and the raw \<open>project_id\<close> input are not
  empty and no segment of \<open>secrets\<close> is left after splitting at the commas and
  trimming, \<open>run\<close> completes with the success output alone, with the empty list: no
  call of the client, no failure.
\<close>

theorem blank_secrets_no_calls:
  assumes "raw_project_id \<noteq> []"
    and "raw_secrets \<noteq> []"
    and "filter (\<lambda>item. length item > 0) (map trim (split_str CHR '','' raw_secrets)) = []"
  shows "run_action env raw_project_id raw_secrets w
           = Completes [SetOutput ''updated_secrets'' []]"
proof -
  from assms(3) have "\<forall>c \<in> set raw_secrets. c = CHR '','' \<or> is_space c"
    by (rule no_segment_iff [THEN iffD1])
  with set_trim [of raw_secrets] have "\<forall>c \<in> set (trim raw_secrets). c = CHR '','' \<or> is_space c"
    by blast
  then have "filter (\<lambda>item. length item > 0) (map trim (split_str CHR '','' (trim raw_secrets))) = []"
    by (rule no_segment_iff [THEN iffD2])
  then have "run env (trim raw_project_id) (trim raw_secrets) w = [SetOutput ''updated_secrets'' []]"
    by (rule run_no_segments)
  with assms(1,2) show ?thesis
    by (simp add: run_action_def getInput_required_def)
qed

theorem blank_secrets_no_calls_witness:
  "''test-project-123'' \<noteq> [] \<and> '' , ,, '' \<noteq> []
   \<and> filter (\<lambda>item. length item > 0) (map trim (split_str CHR '','' '' , ,, '')) = []
   \<and> run_action (mock (Inr ()) (Inr ()) (always (Inr ())) (Inl Nullish)) ''test-project-123'' '' , ,, '' 0
     = Completes [SetOutput ''updated_secrets'' []]"
proof -
  have h1: "''test-project-123'' \<noteq> []" and h2: "'' , ,, '' \<noteq> []"
    by simp_all
  have h3: "filter (\<lambda>item. length item > 0) (map trim (split_str CHR '','' '' , ,, '')) = []"
    by (simp add: trim_def is_space_def)
  have r: "run_action (mock (Inr ()) (Inr ()) (always (Inr ())) (Inl Nullish)) ''test-project-123'' '' , ,, '' 0
             = Completes [SetOutput ''updated_secrets'' []]"
    by (rule blank_secrets_no_calls [OF h1 h2 h3])
  from h1 h2 h3 r show ?thesis by blast
qed

text \<open>
  C9 as stated fails on its own example, the empty string: no segment is left, but
  \<open>getInput\<close> with \<open>required: true\<close> throws at line 95, outside every \<open>try\<close>; the
  promise of \<open>run\<close> is rejected and nothing is emitted. The same happens at line 94
  when \<open>project_id\<close> is empty.
\<close>

theorem empty_secrets_input_counterexample:
  "filter (\<lambda>item. length item > 0) (map trim (split_str CHR '','' [])) = []
   \<and> run_action (mock (Inr ()) (Inr ()) (always (Inr ())) (Inl Nullish)) ''test-project-123'' [] 0
     = Throws (Obj None True ''Input required and not supplied: secrets'')
   \<and> run_action (mock (Inr ()) (Inr ()) (always (Inr ())) (Inl Nullish)) [] '','' 0
     = Throws (Obj None True ''Input required and not supplied: project_id'')"
  by (simp add: run_action_def getInput_required_def trim_def)

subsection \<open>Failures\<close>




text \<open>
  C6. The secret exists and the access of its latest version is rejected with code 5.
  The entry then causes a warning and exactly one add-version call with
  \<open>Buffer.from(value, 'utf8')\<close>. If that call succeeds the key is appended to
  \<open>updatedSecrets\<close> and the loop goes on; if it is rejected, with whatever value, the loop
  ends there with a failure report, whatever entries remain.
\<close>

theorem latest_not_found_adds_version:
  assumes "getSecret env (secretName projectId (key secret)) w = (Inr (), w1)"
    and "accessSecretVersion env (secretName projectId (key secret) @ ''/versions/latest'') w1
           = (Inl error, w2)"
    and "not_found error"
  shows "(\<forall>w3. addSecretVersion env (secretName projectId (key secret))
                  (Buffer_from_utf8 env (val secret)) w2 = (Inr (), w3) \<longrightarrow>
            for_secrets env projectId (secret # rest) w updatedSecrets =
              prepend
                [Call (GetSecret (secretName projectId (key secret))) Resolved,
                 Call (AccessSecretVersion (secretName projectId (key secret) @ ''/versions/latest''))
                   (Rejected error),
                 Warning (''Secret '' @ key secret @
                   '' exists but failed to access latest version (perhaps no enabled versions?). Adding a new version.''),
                 Call (AddSecretVersion (secretName projectId (key secret))
                         (Buffer_from_utf8 env (val secret))) Resolved]
                (for_secrets env projectId rest w3 (updatedSecrets @ [key secret])))
       \<and> (\<forall>addVersionError w3.
            addSecretVersion env (secretName projectId (key secret))
              (Buffer_from_utf8 env (val secret)) w2 = (Inl addVersionError, w3) \<longrightarrow>
            for_secrets env projectId (secret # rest) w updatedSecrets =
              ([Call (GetSecret (secretName projectId (key secret))) Resolved,
                Call (AccessSecretVersion (secretName projectId (key secret) @ ''/versions/latest''))
                  (Rejected error),
                Warning (''Secret '' @ key secret @
                  '' exists but failed to access latest version (perhaps no enabled versions?). Adding a new version.''),
                Call (AddSecretVersion (secretName projectId (key secret))
                        (Buffer_from_utf8 env (val secret))) (Rejected addVersionError),
                setFailed_for addVersionError
                  (''Error adding version to secret '' @ key secret @
                     '' after failing to access latest: '')
                  (''An unknown error occurred while adding version to secret '' @ key secret)],
               Returned))"
  using assms by (cases error) (simp_all add: path_defs)

theorem latest_not_found_adds_version_witness:
  "not_found (Obj (Some 5) False ''Version not found'')
   \<and> for_secrets
       (mock (Inr ()) (Inr ()) (always (Inr ())) (Inl (Obj (Some 5) False ''Version not found'')))
       ''test-project-123''
       [\<lparr>key = ''EXISTING_SECRET_NO_VERSION'', val = ''value_for_no_version_secret''\<rparr>] 0 []
     = ([Call (GetSecret ''projects/test-project-123/secrets/EXISTING_SECRET_NO_VERSION'') Resolved,
         Call (AccessSecretVersion
                 ''projects/test-project-123/secrets/EXISTING_SECRET_NO_VERSION/versions/latest'')
           (Rejected (Obj (Some 5) False ''Version not found'')),
         Warning ''Secret EXISTING_SECRET_NO_VERSION exists but failed to access latest version (perhaps no enabled versions?). Adding a new version.'',
         Call (AddSecretVersion ''projects/test-project-123/secrets/EXISTING_SECRET_NO_VERSION''
                 ''value_for_no_version_secret'') Resolved],
        Next 1 [''EXISTING_SECRET_NO_VERSION''])
   \<and> for_secrets
       (mock (Inr ()) (Inr ()) (always (Inl (Obj (Some 13) True ''internal'')))
          (Inl (Obj (Some 5) False ''Version not found'')))
       ''test-project-123''
       [\<lparr>key = ''EXISTING_SECRET_NO_VERSION'', val = ''value_for_no_version_secret''\<rparr>,
        \<lparr>key = ''NEXT'', val = ''x''\<rparr>] 0 []
     = ([Call (GetSecret ''projects/test-project-123/secrets/EXISTING_SECRET_NO_VERSION'') Resolved,
         Call (AccessSecretVersion
                 ''projects/test-project-123/secrets/EXISTING_SECRET_NO_VERSION/versions/latest'')
           (Rejected (Obj (Some 5) False ''Version not found'')),
         Warning ''Secret EXISTING_SECRET_NO_VERSION exists but failed to access latest version (perhaps no enabled versions?). Adding a new version.'',
         Call (AddSecretVersion ''projects/test-project-123/secrets/EXISTING_SECRET_NO_VERSION''
                 ''value_for_no_version_secret'') (Rejected (Obj (Some 13) True ''internal'')),
         SetFailed ''Error adding version to secret EXISTING_SECRET_NO_VERSION after failing to access latest: internal''],
        Returned)"
  (is "?n \<and> ?ok \<and> ?ko")
proof -
  let ?nf = "Obj (Some 5) False ''Version not found''"
  let ?s = "\<lparr>key = ''EXISTING_SECRET_NO_VERSION'', val = ''value_for_no_version_secret''\<rparr>"
  have n: "not_found ?nf" by simp
  have "?ok"
  proof -
    let ?env = "mock (Inr ()) (Inr ()) (always (Inr ())) (Inl ?nf)"
    have g: "getSecret ?env (secretName ''test-project-123'' (key ?s)) 0 = (Inr (), 0)"
      by (simp add: mock_def)
    have a: "accessSecretVersion ?env
               (secretName ''test-project-123'' (key ?s) @ ''/versions/latest'') 0 = (Inl ?nf, 0)"
      by (simp add: mock_def)
    show ?thesis
      using latest_not_found_adds_version [OF g a n, of "[]" "[]"]
      by (simp add: prepend_def secretName_def mock_def)
  qed
  moreover have "?ko"
  proof -
    let ?env = "mock (Inr ()) (Inr ()) (always (Inl (Obj (Some 13) True ''internal''))) (Inl ?nf)"
    have g: "getSecret ?env (secretName ''test-project-123'' (key ?s)) 0 = (Inr (), 0)"
      by (simp add: mock_def)
    have a: "accessSecretVersion ?env
               (secretName ''test-project-123'' (key ?s) @ ''/versions/latest'') 0 = (Inl ?nf, 0)"
      by (simp add: mock_def)
    show ?thesis
      using latest_not_found_adds_version [OF g a n, of "[\<lparr>key = ''NEXT'', val = ''x''\<rparr>]" "[]"]
      by (simp add: secretName_def mock_def)
  qed
  ultimately show ?thesis using n by blast
qed

text \<open>
  C7, as amended. The secret exists and the access of its latest version succeeds, but
  the payload is absent or undecodable: the code's \<open>payload?.data?.toString('utf8')\<close> is
  \<open>undefined\<close>. Whatever the client answers next, the entry causes a warning and then an
  add-version call with \<open>Buffer.from(value, 'utf8')\<close>. If that call succeeds, the
  key is appended to \<open>updatedSecrets\<close> and the loop goes on; if it is rejected with an
  object whose code is not 5, the loop ends there with a failure report. (A rejection with
  code 5 is C10's case.)
\<close>

theorem unreadable_payload_updated:
  assumes "getSecret env (secretName projectId (key secret)) w = (Inr (), w1)"
    and "accessSecretVersion env (secretName projectId (key secret) @ ''/versions/latest'') w1
           = (Inr versionResponse, w2)"
    and "currentSecretData env versionResponse = None"
  shows "(\<exists>tl fl.
            for_secrets env projectId (secret # rest) w updatedSecrets =
              ([Call (GetSecret (secretName projectId (key secret))) Resolved,
                Call (AccessSecretVersion (secretName projectId (key secret) @ ''/versions/latest'')) Resolved,
                Warning (''Could not retrieve current data for secret '' @ key secret @
                          ''. Adding a new version.''),
                Call (AddSecretVersion (secretName projectId (key secret))
                        (Buffer_from_utf8 env (val secret)))
                  (result_of (fst (addSecretVersion env (secretName projectId (key secret))
                                     (Buffer_from_utf8 env (val secret)) w2)))] @ tl,
               fl))
       \<and> (\<forall>w3. addSecretVersion env (secretName projectId (key secret))
                  (Buffer_from_utf8 env (val secret)) w2 = (Inr (), w3) \<longrightarrow>
            for_secrets env projectId (secret # rest) w updatedSecrets =
              prepend
                [Call (GetSecret (secretName projectId (key secret))) Resolved,
                 Call (AccessSecretVersion (secretName projectId (key secret) @ ''/versions/latest'')) Resolved,
                 Warning (''Could not retrieve current data for secret '' @ key secret @
                           ''. Adding a new version.''),
                 Call (AddSecretVersion (secretName projectId (key secret))
                         (Buffer_from_utf8 env (val secret))) Resolved]
                (for_secrets env projectId rest w3 (updatedSecrets @ [key secret])))
       \<and> (\<forall>error w3.
            addSecretVersion env (secretName projectId (key secret))
              (Buffer_from_utf8 env (val secret)) w2 = (Inl error, w3) \<longrightarrow>
            error \<noteq> Nullish \<longrightarrow> \<not> not_found error \<longrightarrow>
            for_secrets env projectId (secret # rest) w updatedSecrets =
              ([Call (GetSecret (secretName projectId (key secret))) Resolved,
                Call (AccessSecretVersion (secretName projectId (key secret) @ ''/versions/latest'')) Resolved,
                Warning (''Could not retrieve current data for secret '' @ key secret @
                          ''. Adding a new version.''),
                Call (AddSecretVersion (secretName projectId (key secret))
                        (Buffer_from_utf8 env (val secret))) (Rejected error),
                setFailed_for error
                  (''Error accessing/updating secret '' @ key secret @ '': '')
                  (''An unknown error occurred while accessing/updating secret '' @ key secret)],
               Returned))"
  (is "?always \<and> ?resolved \<and> ?rejected")
proof -
  have "?always"
    using assms
    by (auto simp: Let_def path_defs result_of_def
        simp del: setFailed_for.simps
        split: prod.splits sum.splits flow.splits thrown.splits)
  moreover have "?resolved"
    using assms by (simp add: path_defs)
  moreover have "?rejected"
  proof (intro allI impI)
    fix error w3
    assume "addSecretVersion env (secretName projectId (key secret))
              (Buffer_from_utf8 env (val secret)) w2 = (Inl error, w3)"
      and "error \<noteq> Nullish" and "\<not> not_found error"
    with assms show "for_secrets env projectId (secret # rest) w updatedSecrets =
              ([Call (GetSecret (secretName projectId (key secret))) Resolved,
                Call (AccessSecretVersion (secretName projectId (key secret) @ ''/versions/latest'')) Resolved,
                Warning (''Could not retrieve current data for secret '' @ key secret @
                          ''. Adding a new version.''),
                Call (AddSecretVersion (secretName projectId (key secret))
                        (Buffer_from_utf8 env (val secret))) (Rejected error),
                setFailed_for error
                  (''Error accessing/updating secret '' @ key secret @ '': '')
                  (''An unknown error occurred while accessing/updating secret '' @ key secret)],
               Returned)"
      by (cases error) (simp_all add: Let_def path_defs del: setFailed_for.simps)
  qed
  ultimately show ?thesis by blast
qed

theorem unreadable_payload_updated_witness:
  "currentSecretData (mock (Inr ()) (Inr ()) (always (Inr ())) (Inr (VersionResponse (Some (Payload None)))))
     (VersionResponse (Some (Payload None))) = None
   \<and> for_secrets (mock (Inr ()) (Inr ()) (always (Inr ())) (Inr (VersionResponse (Some (Payload None)))))
       ''p'' [\<lparr>key = ''K'', val = ''v''\<rparr>] 0 []
     = ([Call (GetSecret ''projects/p/secrets/K'') Resolved,
         Call (AccessSecretVersion ''projects/p/secrets/K/versions/latest'') Resolved,
         Warning ''Could not retrieve current data for secret K. Adding a new version.'',
         Call (AddSecretVersion ''projects/p/secrets/K'' ''v'') Resolved],
        Next 1 [''K''])
   \<and> \<not> not_found (Obj (Some 13) True ''internal'')
   \<and> for_secrets
       (mock (Inr ()) (Inr ()) (always (Inl (Obj (Some 13) True ''internal'')))
          (Inr (VersionResponse (Some (Payload None)))))
       ''p'' [\<lparr>key = ''K'', val = ''v''\<rparr>, \<lparr>key = ''NEXT'', val = ''x''\<rparr>] 0 []
     = ([Call (GetSecret ''projects/p/secrets/K'') Resolved,
         Call (AccessSecretVersion ''projects/p/secrets/K/versions/latest'') Resolved,
         Warning ''Could not retrieve current data for secret K. Adding a new version.'',
         Call (AddSecretVersion ''projects/p/secrets/K'' ''v'')
           (Rejected (Obj (Some 13) True ''internal'')),
         SetFailed ''Error accessing/updating secret K: internal''],
        Returned)"
  (is "?c \<and> ?ok \<and> ?n \<and> ?ko")
proof -
  let ?resp = "VersionResponse (Some (Payload None))"
  let ?s = "\<lparr>key = ''K'', val = ''v''\<rparr>"
  have "?ok"
  proof -
    let ?env = "mock (Inr ()) (Inr ()) (always (Inr ())) (Inr ?resp)"
    have g: "getSecret ?env (secretName ''p'' (key ?s)) 0 = (Inr (), 0)"
      by (simp add: mock_def)
    have a: "accessSecretVersion ?env (secretName ''p'' (key ?s) @ ''/versions/latest'') 0
               = (Inr ?resp, 0)"
      by (simp add: mock_def)
    have c: "currentSecretData ?env ?resp = None"
      by (simp add: currentSecretData_def)
    have v: "addSecretVersion ?env (secretName ''p'' (key ?s)) (Buffer_from_utf8 ?env (val ?s)) 0
               = (Inr (), 1)"
      by (simp add: mock_def)
    from unreadable_payload_updated [OF g a c, of "[]" "[]"] v
    have "for_secrets ?env ''p'' [?s] 0 [] =
            prepend
              [Call (GetSecret (secretName ''p'' (key ?s))) Resolved,
               Call (AccessSecretVersion (secretName ''p'' (key ?s) @ ''/versions/latest'')) Resolved,
               Warning (''Could not retrieve current data for secret '' @ key ?s @
                         ''. Adding a new version.''),
               Call (AddSecretVersion (secretName ''p'' (key ?s))
                       (Buffer_from_utf8 ?env (val ?s))) Resolved]
              (for_secrets ?env ''p'' [] 1 ([] @ [key ?s]))"
      by blast
    then show ?thesis
      by (simp add: prepend_def secretName_def mock_def)
  qed
  moreover have "?ko"
  proof -
    let ?e = "Obj (Some 13) True ''internal''"
    let ?env = "mock (Inr ()) (Inr ()) (always (Inl ?e)) (Inr ?resp)"
    have g: "getSecret ?env (secretName ''p'' (key ?s)) 0 = (Inr (), 0)"
      by (simp add: mock_def)
    have a: "accessSecretVersion ?env (secretName ''p'' (key ?s) @ ''/versions/latest'') 0
               = (Inr ?resp, 0)"
      by (simp add: mock_def)
    have c: "currentSecretData ?env ?resp = None"
      by (simp add: currentSecretData_def)
    have v: "addSecretVersion ?env (secretName ''p'' (key ?s)) (Buffer_from_utf8 ?env (val ?s)) 0
               = (Inl ?e, 1)"
      by (simp add: mock_def)
    have ne: "?e \<noteq> Nullish" and nf: "\<not> not_found ?e"
      by simp_all
    from unreadable_payload_updated [OF g a c, of "[\<lparr>key = ''NEXT'', val = ''x''\<rparr>]" "[]"] v ne nf
    have "for_secrets ?env ''p'' [?s, \<lparr>key = ''NEXT'', val = ''x''\<rparr>] 0 [] =
            ([Call (GetSecret (secretName ''p'' (key ?s))) Resolved,
              Call (AccessSecretVersion (secretName ''p'' (key ?s) @ ''/versions/latest'')) Resolved,
              Warning (''Could not retrieve current data for secret '' @ key ?s @
                        ''. Adding a new version.''),
              Call (AddSecretVersion (secretName ''p'' (key ?s))
                      (Buffer_from_utf8 ?env (val ?s))) (Rejected ?e),
              setFailed_for ?e
                (''Error accessing/updating secret '' @ key ?s @ '': '')
                (''An unknown error occurred while accessing/updating secret '' @ key ?s)],
             Returned)"
      by blast
    then show ?thesis
      by (simp add: secretName_def mock_def)
  qed
  moreover have "?c" by (simp add: currentSecretData_def)
  moreover have "?n" by simp
  ultimately show ?thesis by blast
qed

text \<open>
  C7 as stated fails: the response has no payload and the add-version call is rejected
  with a permission error; the run fails and the key is recorded nowhere.
\<close>

theorem unreadable_payload_add_rejected_counterexample:
  "currentSecretData
     (mock (Inr ()) (Inr ()) (always (Inl (Obj (Some 7) True ''denied''))) (Inr (VersionResponse None)))
     (VersionResponse None) = None
   \<and> for_secrets
       (mock (Inr ()) (Inr ()) (always (Inl (Obj (Some 7) True ''denied''))) (Inr (VersionResponse None)))
       ''p'' [\<lparr>key = ''K'', val = ''v''\<rparr>] 0 []
     = ([Call (GetSecret ''projects/p/secrets/K'') Resolved,
         Call (AccessSecretVersion ''projects/p/secrets/K/versions/latest'') Resolved,
         Warning ''Could not retrieve current data for secret K. Adding a new version.'',
         Call (AddSecretVersion ''projects/p/secrets/K'' ''v'')
           (Rejected (Obj (Some 7) True ''denied'')),
         SetFailed ''Error accessing/updating secret K: denied''],
        Returned)
   \<and> run
       (mock (Inr ()) (Inr ()) (always (Inl (Obj (Some 7) True ''denied''))) (Inr (VersionResponse None)))
       ''p'' ''K=v'' 0
     = [Call (GetSecret ''projects/p/secrets/K'') Resolved,
        Call (AccessSecretVersion ''projects/p/secrets/K/versions/latest'') Resolved,
        Warning ''Could not retrieve current data for secret K. Adding a new version.'',
        Call (AddSecretVersion ''projects/p/secrets/K'' ''v'')
          (Rejected (Obj (Some 7) True ''denied'')),
        SetFailed ''Error accessing/updating secret K: denied'']"
  by (simp add: eval_defs)

text \<open>
  C10. On the update path (the decoded value is \<open>undefined\<close> or differs from the
  desired one), if the add-version call is rejected with code 5, the loop does not end:
  a warning follows and one further add-version call for the same secret. If the second
  call succeeds the key is appended to \<open>updatedSecrets\<close> and the loop goes on; if it
  is rejected, with whatever value, the loop ends there with a failure report.
\<close>

theorem update_retried_after_not_found:
  assumes "getSecret env (secretName projectId (key secret)) w = (Inr (), w1)"
    and "accessSecretVersion env (secretName projectId (key secret) @ ''/versions/latest'') w1
           = (Inr versionResponse, w2)"
    and "currentSecretData env versionResponse \<noteq> Some (val secret)"
    and "addSecretVersion env (secretName projectId (key secret))
           (Buffer_from_utf8 env (val secret)) w2 = (Inl error, w3)"
    and "not_found error"
  shows "(\<forall>w4. addSecretVersion env (secretName projectId (key secret))
                  (Buffer_from_utf8 env (val secret)) w3 = (Inr (), w4) \<longrightarrow>
            for_secrets env projectId (secret # rest) w updatedSecrets =
              prepend
                ([Call (GetSecret (secretName projectId (key secret))) Resolved,
                  Call (AccessSecretVersion (secretName projectId (key secret) @ ''/versions/latest'')) Resolved]
                 @ (case currentSecretData env versionResponse of
                      None \<Rightarrow> [Warning (''Could not retrieve current data for secret '' @ key secret @
                                          ''. Adding a new version.'')]
                    | Some current \<Rightarrow> [])
                 @ [Call (AddSecretVersion (secretName projectId (key secret))
                            (Buffer_from_utf8 env (val secret))) (Rejected error),
                    Warning (''Secret '' @ key secret @
                      '' exists but failed to access latest version (perhaps no enabled versions?). Adding a new version.''),
                    Call (AddSecretVersion (secretName projectId (key secret))
                            (Buffer_from_utf8 env (val secret))) Resolved])
                (for_secrets env projectId rest w4 (updatedSecrets @ [key secret])))
       \<and> (\<forall>addVersionError w4.
            addSecretVersion env (secretName projectId (key secret))
              (Buffer_from_utf8 env (val secret)) w3 = (Inl addVersionError, w4) \<longrightarrow>
            for_secrets env projectId (secret # rest) w updatedSecrets =
              ([Call (GetSecret (secretName projectId (key secret))) Resolved,
                Call (AccessSecretVersion (secretName projectId (key secret) @ ''/versions/latest'')) Resolved]
               @ (case currentSecretData env versionResponse of
                    None \<Rightarrow> [Warning (''Could not retrieve current data for secret '' @ key secret @
                                        ''. Adding a new version.'')]
                  | Some current \<Rightarrow> [])
               @ [Call (AddSecretVersion (secretName projectId (key secret))
                          (Buffer_from_utf8 env (val secret))) (Rejected error),
                  Warning (''Secret '' @ key secret @
                    '' exists but failed to access latest version (perhaps no enabled versions?). Adding a new version.''),
                  Call (AddSecretVersion (secretName projectId (key secret))
                          (Buffer_from_utf8 env (val secret))) (Rejected addVersionError),
                  setFailed_for addVersionError
                    (''Error adding version to secret '' @ key secret @
                       '' after failing to access latest: '')
                    (''An unknown error occurred while adding version to secret '' @ key secret)],
               Returned))"
  using assms
  by (cases error; cases "currentSecretData env versionResponse")
     (simp_all add: Let_def path_defs del: setFailed_for.simps)

theorem update_retried_after_not_found_witness:
  "currentSecretData
     (mock (Inr ()) (Inr ()) (once_then (Inl (Obj (Some 5) True ''gone'')) (Inr ()))
        (Inr (VersionResponse (Some (Payload (Some ''old''))))))
     (VersionResponse (Some (Payload (Some ''old'')))) \<noteq> Some ''new''
   \<and> not_found (Obj (Some 5) True ''gone'')
   \<and> for_secrets
       (mock (Inr ()) (Inr ()) (once_then (Inl (Obj (Some 5) True ''gone'')) (Inr ()))
          (Inr (VersionResponse (Some (Payload (Some ''old''))))))
       ''p'' [\<lparr>key = ''K'', val = ''new''\<rparr>] 0 []
     = ([Call (GetSecret ''projects/p/secrets/K'') Resolved,
         Call (AccessSecretVersion ''projects/p/secrets/K/versions/latest'') Resolved,
         Call (AddSecretVersion ''projects/p/secrets/K'' ''new'')
           (Rejected (Obj (Some 5) True ''gone'')),
         Warning ''Secret K exists but failed to access latest version (perhaps no enabled versions?). Adding a new version.'',
         Call (AddSecretVersion ''projects/p/secrets/K'' ''new'') Resolved],
        Next 2 [''K''])
   \<and> for_secrets
       (mock (Inr ()) (Inr ()) (always (Inl (Obj (Some 5) True ''gone'')))
          (Inr (VersionResponse None)))
       ''p'' [\<lparr>key = ''K'', val = ''new''\<rparr>, \<lparr>key = ''NEXT'', val = ''x''\<rparr>] 0 []
     = ([Call (GetSecret ''projects/p/secrets/K'') Resolved,
         Call (AccessSecretVersion ''projects/p/secrets/K/versions/latest'') Resolved,
         Warning ''Could not retrieve current data for secret K. Adding a new version.'',
         Call (AddSecretVersion ''projects/p/secrets/K'' ''new'')
           (Rejected (Obj (Some 5) True ''gone'')),
         Warning ''Secret K exists but failed to access latest version (perhaps no enabled versions?). Adding a new version.'',
         Call (AddSecretVersion ''projects/p/secrets/K'' ''new'')
           (Rejected (Obj (Some 5) True ''gone'')),
         SetFailed ''Error adding version to secret K after failing to access latest: gone''],
        Returned)"
  (is "?c \<and> ?n \<and> ?ok \<and> ?ko")
proof -
  let ?nf = "Obj (Some 5) True ''gone''"
  let ?s = "\<lparr>key = ''K'', val = ''new''\<rparr>"
  have n: "not_found ?nf" by simp
  let ?old = "VersionResponse (Some (Payload (Some ''old'')))"
  let ?env1 = "mock (Inr ()) (Inr ()) (once_then (Inl ?nf) (Inr ())) (Inr ?old)"
  have c1: "currentSecretData ?env1 ?old \<noteq> Some (val ?s)"
    by (simp add: currentSecretData_def mock_def)
  have "?ok"
  proof -
    have g: "getSecret ?env1 (secretName ''p'' (key ?s)) 0 = (Inr (), 0)"
      by (simp add: mock_def)
    have a: "accessSecretVersion ?env1 (secretName ''p'' (key ?s) @ ''/versions/latest'') 0
               = (Inr ?old, 0)"
      by (simp add: mock_def)
    have v: "addSecretVersion ?env1 (secretName ''p'' (key ?s)) (Buffer_from_utf8 ?env1 (val ?s)) 0
               = (Inl ?nf, 1)"
      by (simp add: mock_def)
    show ?thesis
      using update_retried_after_not_found [OF g a c1 v n, of "[]" "[]"]
      by (simp add: prepend_def secretName_def mock_def currentSecretData_def)
  qed
  moreover have "?ko"
  proof -
    let ?env = "mock (Inr ()) (Inr ()) (always (Inl ?nf)) (Inr (VersionResponse None))"
    have g: "getSecret ?env (secretName ''p'' (key ?s)) 0 = (Inr (), 0)"
      by (simp add: mock_def)
    have a: "accessSecretVersion ?env (secretName ''p'' (key ?s) @ ''/versions/latest'') 0
               = (Inr (VersionResponse None), 0)"
      by (simp add: mock_def)
    have c: "currentSecretData ?env (VersionResponse None) \<noteq> Some (val ?s)"
      by (simp add: currentSecretData_def)
    have v: "addSecretVersion ?env (secretName ''p'' (key ?s)) (Buffer_from_utf8 ?env (val ?s)) 0
               = (Inl ?nf, 1)"
      by (simp add: mock_def)
    show ?thesis
      using update_retried_after_not_found [OF g a c v n, of "[\<lparr>key = ''NEXT'', val = ''x''\<rparr>]" "[]"]
      by (simp add: secretName_def mock_def currentSecretData_def)
  qed
  moreover have "?c" using c1 by simp
  ultimately show ?thesis using n by blast
qed

subsection \<open>The success output\<close>

text \<open>
  C8, as amended. In a run that emits \<open>updated_secrets\<close> and whose entries have
  pairwise distinct keys, the emitted list has no duplicates, it holds exactly the keys
  for which a create call or an add-version call succeeded, and no secret received more
  than one new version.
\<close>

theorem successful_run_updated_secrets:
  assumes "distinct (map key (secretsArray secrets))"
    and "SetOutput n ups \<in> set (run env projectId secrets w)"
  shows "distinct ups
       \<and> (\<forall>k. k \<in> set ups \<longleftrightarrow>
                k \<in> set (secrets_created (run env projectId secrets w))
                \<or> secretName projectId k \<in> set (versions_added (run env projectId secrets w)))
       \<and> (\<forall>k. count_list (versions_added (run env projectId secrets w))
                 (secretName projectId k) \<le> 1)"
proof -
  let ?xs = "secretsArray secrets"
  have valid: "\<not> has_empty_key ?xs"
    using assms(2) by (auto simp: run_def)
  obtain evs fl where loop: "for_secrets env projectId ?xs w [] = (evs, fl)"
    by (cases "for_secrets env projectId ?xs w []")
  have sh: "shape env projectId (set ?xs) (evs, fl)"
    using for_secrets_shape [of env projectId ?xs w "[]"] loop by simp
  have "\<exists>w1 upd1. fl = Next w1 upd1"
  proof (cases fl)
    case Returned
    then have r: "run env projectId secrets w = evs"
      using valid loop by (simp add: run_def)
    from sh Returned obtain c e m rpre where
      "rev evs = SetFailed m # Call c (Rejected e) # rpre" "list_all quiet rpre"
      by (auto simp: shape_def)
    then have "SetOutput n ups \<notin> set (rev evs)"
      using quiet_no_output by auto
    with assms(2) r show ?thesis by simp
  next
    case (Threw t)
    then have r: "set (run env projectId secrets w) \<subseteq> set evs \<union> range SetFailed"
      using valid loop by (auto simp: run_def)
    from sh Threw obtain c rpre where
      "rev evs = Call c (Rejected Nullish) # rpre" "list_all quiet rpre"
      by (auto simp: shape_def)
    then have "SetOutput n ups \<notin> set (rev evs)"
      using quiet_no_output by auto
    with assms(2) r show ?thesis by auto
  qed simp
  then obtain w1 upd1 where fl: "fl = Next w1 upd1" by blast
  have r: "run env projectId secrets w = evs @ [SetOutput ''updated_secrets'' upd1]"
    using valid loop fl by (simp add: run_def)
  have "list_all quiet evs" using sh fl by (simp add: shape_def)
  then have "SetOutput n ups \<notin> set evs" by (rule quiet_no_output)
  with assms(2) r have ups: "ups = upd1" by simp
  from for_secrets_writes [OF loop [unfolded fl]] ups have
    va: "versions_added evs = map (secretName projectId) ups"
    and sc: "set (secrets_created evs) \<subseteq> set ups"
    and sub: "subseq ups (map key ?xs)"
    by auto
  have d: "distinct ups"
    using sub assms(1) subseqs_distinctD [of ups "map key ?xs"] by simp
  have va': "versions_added (run env projectId secrets w) = map (secretName projectId) ups"
    using r va by (simp add: versions_added_def)
  have sc': "secrets_created (run env projectId secrets w) = secrets_created evs"
    using r by (simp add: secrets_created_def)
  have "distinct (map (secretName projectId) ups)"
    using d by (simp add: distinct_map inj_on_def)
  then have "count_list (map (secretName projectId) ups) x \<le> 1" for x
    by (rule distinct_count_list)
  with d va' sc' sc show ?thesis by auto
qed

theorem successful_run_updated_secrets_witness:
  "distinct (map key (secretsArray ''  KEY_ONE = val1  , ,, KEY_TWO=val2, ''))
   \<and> run (mock (Inl (Obj (Some 5) False [])) (Inr ()) (always (Inr ())) (Inl Nullish))
       ''test-project-123'' ''  KEY_ONE = val1  , ,, KEY_TWO=val2, '' 0
     = [Call (GetSecret ''projects/test-project-123/secrets/KEY_ONE'')
          (Rejected (Obj (Some 5) False [])),
        Call (CreateSecret ''projects/test-project-123'' ''KEY_ONE'' Automatic) Resolved,
        Call (AddSecretVersion ''projects/test-project-123/secrets/KEY_ONE'' ''val1'') Resolved,
        Call (GetSecret ''projects/test-project-123/secrets/KEY_TWO'')
          (Rejected (Obj (Some 5) False [])),
        Call (CreateSecret ''projects/test-project-123'' ''KEY_TWO'' Automatic) Resolved,
        Call (AddSecretVersion ''projects/test-project-123/secrets/KEY_TWO'' ''val2'') Resolved,
        SetOutput ''updated_secrets'' [''KEY_ONE'', ''KEY_TWO'']]
   \<and> (\<forall>k. k \<in> set [''KEY_ONE'', ''KEY_TWO''] \<longleftrightarrow>
         k \<in> set (secrets_created
                    (run (mock (Inl (Obj (Some 5) False [])) (Inr ()) (always (Inr ())) (Inl Nullish))
                       ''test-project-123'' ''  KEY_ONE = val1  , ,, KEY_TWO=val2, '' 0))
         \<or> secretName ''test-project-123'' k
             \<in> set (versions_added
                    (run (mock (Inl (Obj (Some 5) False [])) (Inr ()) (always (Inr ())) (Inl Nullish))
                       ''test-project-123'' ''  KEY_ONE = val1  , ,, KEY_TWO=val2, '' 0)))
   \<and> (\<forall>k. count_list
              (versions_added
                 (run (mock (Inl (Obj (Some 5) False [])) (Inr ()) (always (Inr ())) (Inl Nullish))
                    ''test-project-123'' ''  KEY_ONE = val1  , ,, KEY_TWO=val2, '' 0))
              (secretName ''test-project-123'' k) \<le> 1)"
  (is "?d \<and> ?run = ?evs \<and> ?exact \<and> ?once")
proof -
  have sa: "secretsArray ''  KEY_ONE = val1  , ,, KEY_TWO=val2, ''
              = [\<lparr>key = ''KEY_ONE'', val = ''val1''\<rparr>, \<lparr>key = ''KEY_TWO'', val = ''val2''\<rparr>]"
    by (simp add: secretsArray_def parse_item_def trim_def is_space_def)
  have d: "?d" by (simp add: sa)
  have r: "?run = ?evs"
    by (simp add: run_def sa path_defs mock_def secretName_def parent_def)
  have out: "SetOutput ''updated_secrets'' [''KEY_ONE'', ''KEY_TWO''] \<in> set ?run"
    by (simp add: r)
  from successful_run_updated_secrets [OF d out] have "?exact" and "?once"
    by blast+
  with d r show ?thesis by blast
qed

text \<open>
  C8 as stated fails: the input names the key \<open>A\<close> twice, the secret exists with
  another value; the run succeeds, adds two versions to the one secret and emits the key
  twice.
\<close>

theorem duplicate_key_counterexample:
  "run (mock (Inr ()) (Inr ()) (always (Inr ())) (Inr (VersionResponse (Some (Payload (Some ''0''))))))
     ''p'' ''A=1,A=2'' 0
   = [Call (GetSecret ''projects/p/secrets/A'') Resolved,
      Call (AccessSecretVersion ''projects/p/secrets/A/versions/latest'') Resolved,
      Call (AddSecretVersion ''projects/p/secrets/A'' ''1'') Resolved,
      Info ''Updated secret A with a new version.'',
      Call (GetSecret ''projects/p/secrets/A'') Resolved,
      Call (AccessSecretVersion ''projects/p/secrets/A/versions/latest'') Resolved,
      Call (AddSecretVersion ''projects/p/secrets/A'' ''2'') Resolved,
      Info ''Updated secret A with a new version.'',
      SetOutput ''updated_secrets'' [''A'', ''A'']]
   \<and> \<not> distinct [''A'', ''A'']
   \<and> count_list
       (versions_added
          (run (mock (Inr ()) (Inr ()) (always (Inr ())) (Inr (VersionResponse (Some (Payload (Some ''0''))))))
             ''p'' ''A=1,A=2'' 0))
       ''projects/p/secrets/A'' = 2"
  by (simp add: eval_defs versions_added_def)

end
